theory Spec2Isabelle
  imports Main "HOL-Library.AList"
begin

section \<open>Data model of \<open>src/main.py\<close>\<close>

text \<open>
  Times are readings of \<open>datetime.now()\<close>, counted in microseconds (the resolution of a
  Python \<open>datetime\<close>); every operation that reads the clock takes the reading as its
  argument \<open>now\<close>. Python's unbounded integers are \<open>int\<close>.
\<close>

type_synonym datetime = int

text \<open>The dataclass \<open>HealthCheck\<close>.\<close>

record HealthCheck =
  endpoint :: string
  expected_status :: int
  timeout :: int
  interval :: int
  failure_threshold :: int

text \<open>
  One value of the dictionary \<open>self.health_checks\<close>. The keys \<open>response_time\<close> and
  \<open>last_error\<close> are absent until a probe writes them, hence the options. The response time is
  an input of the model (the rounded number the probe measured), kept as an integer count of
  hundredths of a millisecond.
\<close>

record health_data =
  config :: HealthCheck
  status :: string
  last_check :: "datetime option"
  failures :: int
  success_count :: int
  created_at :: datetime
  response_time :: "int option"
  last_error :: "string option"

text \<open>One entry of \<open>self.alerts\<close> (the dictionary built by \<open>_handle_unhealthy_endpoint\<close>).\<close>

record alert =
  alert_id :: int
  alert_timestamp :: datetime
  alert_type :: string
  alert_endpoint :: string
  alert_status :: string
  alert_failures :: int
  alert_last_error :: string
  alert_action_taken :: string
  alert_failover_success :: bool

record metrics_rec =
  total_requests :: int
  successful_health_checks :: int
  failed_health_checks :: int
  traffic_routes_created :: int
  auto_scale_triggers :: int

text \<open>
  The controller's state. \<open>health_checks\<close> is a Python dict: an association list in insertion
  order, written with \<open>AList.update\<close> (an existing key keeps its place and gets the new value,
  a new key goes to the end).
\<close>

record controller =
  health_checks :: "(string \<times> health_data) list"
  monitoring_active :: bool
  alerts :: "alert list"
  metrics :: metrics_rec
  mock_mode :: bool

text \<open>What \<open>requests.get\<close> does in one probe: it returns a response or raises.\<close>

datatype probe =
  Response int int
  | Timeout
  | ConnectionError
  | OtherException string

datatype setup_result =
  SetupSuccess string string int bool
  | SetupError string

datatype uptime = NA | Percentage int int

section \<open>Helpers\<close>

definition startswith :: "string \<Rightarrow> string \<Rightarrow> bool" where
  "startswith s p = (take (length p) s = p)"

fun digits :: "nat \<Rightarrow> string" where
  "digits n = (if n < 10 then [char_of (48 + n)] else digits (n div 10) @ [char_of (48 + n mod 10)])"

declare digits.simps [simp del]

definition str_int :: "int \<Rightarrow> string" where
  "str_int i = (if i < 0 then CHR ''-'' # digits (nat (- i)) else digits (nat i))"

text \<open>
  The attribute \<open>.seconds\<close> of a \<open>timedelta\<close>: a timedelta is kept normalised as days, seconds
  in \<open>[0, 86400)\<close> and microseconds in \<open>[0, 10^6)\<close>, and \<open>.seconds\<close> is the middle component,
  not the total number of seconds.
\<close>

definition timedelta_seconds :: "int \<Rightarrow> int" where
  "timedelta_seconds us = (us div 1000000) mod 86400"

text \<open>\<open>xs[-100:]\<close>\<close>

definition last100 :: "'a list \<Rightarrow> 'a list" where
  "last100 xs = drop (length xs - 100) xs"

definition put_health :: "string \<Rightarrow> health_data \<Rightarrow> controller \<Rightarrow> controller" where
  "put_health ep d s = s\<lparr>health_checks := AList.update ep d (health_checks s)\<rparr>"

section \<open>Operations\<close>

text \<open>
  The internal state that the last lines of \<open>__init__\<close> (\<open># Internal state\<close>) create, in
  mock or live mode. \<open>__init__\<close> does not always reach these lines: \<open>construct\<close> below
  models the whole constructor.
\<close>

definition init_controller :: "bool \<Rightarrow> controller" where
  "init_controller mm =
     \<lparr>health_checks = [], monitoring_active = False, alerts = [],
      metrics = \<lparr>total_requests = 0, successful_health_checks = 0, failed_health_checks = 0,
                 traffic_routes_created = 0, auto_scale_triggers = 0\<rparr>,
      mock_mode = mm\<rparr>"

text \<open>
  The \<open>try\<close> body of \<open>setup_health_check\<close> on a controller that has its internal state.
  There, for a \<open>str\<close> endpoint and an \<open>int\<close> interval, no statement of the body raises
  (starting the monitoring thread is taken to succeed). The whole method, with the \<open>except\<close>
  clause and on a controller without internal state, is \<open>setup_health_check_method\<close> below.
\<close>

definition setup_health_check ::
    "datetime \<Rightarrow> string \<Rightarrow> int \<Rightarrow> controller \<Rightarrow> setup_result \<times> controller" where
  "setup_health_check now endpoint0 interval0 s =
     (let endpoint1 =
            (if \<not> (startswith endpoint0 ''http://'' \<or> startswith endpoint0 ''https://'')
             then ''https://'' @ endpoint0 else endpoint0);
          health_check = \<lparr>endpoint = endpoint1, expected_status = 200, timeout = 10,
                          interval = interval0, failure_threshold = 3\<rparr>;
          s1 = put_health endpoint1
                 \<lparr>config = health_check, status = ''initializing'', last_check = None,
                  failures = 0, success_count = 0, created_at = now,
                  response_time = None, last_error = None\<rparr> s;
          s2 = (if \<not> monitoring_active s1 then s1\<lparr>monitoring_active := True\<rparr> else s1);
          s3 = s2\<lparr>metrics := (metrics s2)\<lparr>total_requests := total_requests (metrics s2) + 1\<rparr>\<rparr>
      in (SetupSuccess (''Health check configured for '' @ endpoint1) endpoint1 interval0
            (monitoring_active s3), s3))"

fun result_status :: "setup_result \<Rightarrow> string" where
  "result_status (SetupSuccess m e i a) = ''success''"
| "result_status (SetupError m) = ''error''"

text \<open>
  \<open>_trigger_failover\<close>. In live mode the body of the inner \<open>try\<close> is \<open>pass\<close>, so both modes
  return \<open>True\<close> when the list is not empty.
\<close>

definition trigger_failover :: "controller \<Rightarrow> string \<Rightarrow> bool" where
  "trigger_failover s failed_endpoint =
     (let healthy_endpoints =
            map fst (filter (\<lambda>(ep, d). status d = ''healthy'' \<and> ep \<noteq> failed_endpoint)
                       (health_checks s))
      in if healthy_endpoints \<noteq> [] then (if \<not> mock_mode s then True else True) else False)"

text \<open>
  \<open>_handle_unhealthy_endpoint\<close>. The alert is appended first and its \<open>failover_success\<close> key
  is written afterwards, on the same dictionary; \<open>_trigger_failover\<close> does not read the alerts,
  so the alert is built here with the key already set.
\<close>

definition new_alert :: "datetime \<Rightarrow> string \<Rightarrow> health_data \<Rightarrow> controller \<Rightarrow> alert" where
  "new_alert now ep d s =
     \<lparr>alert_id = int (length (alerts s)) + 1,
      alert_timestamp = now,
      alert_type = ''endpoint_unhealthy'',
      alert_endpoint = ep,
      alert_status = status d,
      alert_failures = failures d,
      alert_last_error = (case last_error d of Some e \<Rightarrow> e | None \<Rightarrow> ''Unknown error''),
      alert_action_taken = ''failover_attempted'',
      alert_failover_success = trigger_failover s ep\<rparr>"

definition handle_unhealthy_endpoint ::
    "datetime \<Rightarrow> string \<Rightarrow> health_data \<Rightarrow> controller \<Rightarrow> controller" where
  "handle_unhealthy_endpoint now ep d s =
     (let als = alerts s @ [new_alert now ep d s]
      in s\<lparr>alerts := (if length als > 100 then last100 als else als)\<rparr>)"

definition count_failed :: "controller \<Rightarrow> controller" where
  "count_failed s =
     s\<lparr>metrics := (metrics s)\<lparr>failed_health_checks := failed_health_checks (metrics s) + 1\<rparr>\<rparr>"

definition count_successful :: "controller \<Rightarrow> controller" where
  "count_successful s =
     s\<lparr>metrics := (metrics s)\<lparr>successful_health_checks :=
                                 successful_health_checks (metrics s) + 1\<rparr>\<rparr>"

text \<open>
  The body of the loop of \<open>_monitor_health\<close> from the probe on (the response or the exception
  of \<open>requests.get\<close> is the argument): the \<open>if\<close>/\<open>else\<close> on the status code and the three
  \<open>except\<close> clauses. \<open>health_data\<close> is the dictionary stored in \<open>self.health_checks\<close>, so
  every write is a write to the store. An endpoint that is not registered is not visited.
\<close>

definition apply_probe :: "datetime \<Rightarrow> string \<Rightarrow> probe \<Rightarrow> controller \<Rightarrow> controller" where
  "apply_probe now ep p s =
     (case map_of (health_checks s) ep of
        None \<Rightarrow> s
      | Some d \<Rightarrow>
         (case p of
            Response status_code rt \<Rightarrow>
              (if status_code = expected_status (config d) then
                 count_successful
                   (put_health ep
                      (d\<lparr>status := ''healthy'', failures := 0,
                         success_count := success_count d + 1,
                         response_time := Some rt, last_check := Some now\<rparr>) s)
               else
                 (let d1 = d\<lparr>failures := failures d + 1,
                              last_error := Some (''HTTP '' @ str_int status_code)\<rparr>
                  in if failures d1 \<ge> failure_threshold (config d1) then
                       (let d2 = d1\<lparr>status := ''unhealthy''\<rparr>;
                            s1 = handle_unhealthy_endpoint now ep d2 (put_health ep d2 s)
                        in put_health ep (d2\<lparr>last_check := Some now\<rparr>) s1)
                     else put_health ep (d1\<lparr>status := ''degraded'', last_check := Some now\<rparr>) s))
          | Timeout \<Rightarrow>
              count_failed
                (put_health ep
                   (d\<lparr>failures := failures d + 1, status := ''timeout'',
                      last_error := Some ''Request timeout''\<rparr>) s)
          | ConnectionError \<Rightarrow>
              count_failed
                (put_health ep
                   (d\<lparr>failures := failures d + 1, status := ''connection_error'',
                      last_error := Some ''Connection failed''\<rparr>) s)
          | OtherException e \<Rightarrow>
              (let d1 = d\<lparr>failures := failures d + 1, status := ''error'',
                           last_error := Some e\<rparr>;
                   s1 = count_failed (put_health ep d1 s)
               in if failures d1 \<ge> failure_threshold (config d1)
                  then handle_unhealthy_endpoint now ep d1 s1 else s1)))"

text \<open>
  The whole body of the loop for one endpoint: the probe is skipped while the endpoint is not
  due. A \<open>datetime\<close> is always truthy, so \<open>if health_data['last_check']\<close> tests for \<open>None\<close>.
\<close>

definition monitor_endpoint :: "datetime \<Rightarrow> string \<Rightarrow> probe \<Rightarrow> controller \<Rightarrow> controller" where
  "monitor_endpoint now ep p s =
     (case map_of (health_checks s) ep of
        None \<Rightarrow> s
      | Some d \<Rightarrow>
         (case last_check d of
            Some lc \<Rightarrow>
              if timedelta_seconds (now - lc) < interval (config d) then s
              else apply_probe now ep p s
          | None \<Rightarrow> apply_probe now ep p s))"

text \<open>A run of probes of one endpoint, each with its clock reading.\<close>

fun run_probes :: "string \<Rightarrow> (datetime \<times> probe) list \<Rightarrow> controller \<Rightarrow> controller" where
  "run_probes ep [] s = s"
| "run_probes ep ((now, p) # ps) s = run_probes ep ps (apply_probe now ep p s)"

text \<open>\<open>_calculate_uptime\<close>: \<open>Percentage a b\<close> stands for the text the source renders from the
  floating-point value \<open>(a / b) * 100\<close> with format \<open>.1f\<close>; the operands are kept, the
  floating-point rendering is not modelled. The bare \<open>except\<close> is never reached on integers
  with a non-zero divisor.\<close>

definition calculate_uptime :: "health_data \<Rightarrow> uptime" where
  "calculate_uptime d =
     (let total_checks = success_count d + failures d
      in if total_checks = 0 then NA else Percentage (success_count d) total_checks)"

text \<open>The entry \<open>recent_alerts\<close> of \<open>get_status\<close> (the same expression is in
  \<open>get_recommendations\<close>).\<close>

definition recent_alerts :: "datetime \<Rightarrow> controller \<Rightarrow> nat" where
  "recent_alerts now s =
     length (filter (\<lambda>a. timedelta_seconds (now - alert_timestamp a) < 3600) (alerts s))"

text \<open>\<open>clear_all\<close>\<close>

definition clear_all :: "controller \<Rightarrow> controller" where
  "clear_all s =
     s\<lparr>health_checks := [], alerts := [],
       metrics := \<lparr>total_requests = total_requests (metrics s) + 1,
                    successful_health_checks = 0, failed_health_checks = 0,
                    traffic_routes_created = 0, auto_scale_triggers = 0\<rparr>\<rparr>"

text \<open>The states the controller can be in: what the operations above make of a fresh one.\<close>

inductive reachable :: "controller \<Rightarrow> bool" where
  r_init: "reachable (init_controller mm)"
| r_setup: "reachable s \<Longrightarrow> reachable (snd (setup_health_check now e i s))"
| r_monitor: "reachable s \<Longrightarrow> reachable (monitor_endpoint now ep p s)"
| r_clear: "reachable s \<Longrightarrow> reachable (clear_all s)"

text \<open>
  The branch of \<open>get_status\<close> for a given (non-empty) target: the report of every endpoint
  whose identity contains the target, both in lower case. \<open>lower\<close> is \<open>str.lower\<close> on
  ASCII text. The source collects the matching keys and reads each one back from the
  dictionary; the model walks the items once.
\<close>

record endpoint_report =
  rep_status :: string
  rep_last_check :: "datetime option"
  rep_failures :: int
  rep_success_count :: int
  rep_response_time :: "int option"
  rep_last_error :: "string option"
  rep_uptime_percentage :: uptime

definition lower_char :: "char \<Rightarrow> char" where
  "lower_char c =
     (let n = (of_char c :: nat) in if 65 \<le> n \<and> n \<le> 90 then char_of (n + 32) else c)"

definition lower :: "string \<Rightarrow> string" where
  "lower s = map lower_char s"

fun contains :: "string \<Rightarrow> string \<Rightarrow> bool" where
  "contains t [] = (t = [])"
| "contains t (c # cs) = (take (length t) (c # cs) = t \<or> contains t cs)"

definition report_of :: "health_data \<Rightarrow> endpoint_report" where
  "report_of d =
     \<lparr>rep_status = status d, rep_last_check = last_check d, rep_failures = failures d,
      rep_success_count = success_count d, rep_response_time = response_time d,
      rep_last_error = last_error d, rep_uptime_percentage = calculate_uptime d\<rparr>"

definition get_status_target ::
    "string \<Rightarrow> controller \<Rightarrow> string + (string \<times> endpoint_report) list" where
  "get_status_target target s =
     (let matching = filter (\<lambda>(ep, d). contains (lower target) (lower ep)) (health_checks s)
      in if matching \<noteq> [] then Inr (map (\<lambda>(ep, d). (ep, report_of d)) matching)
         else Inl (''No endpoints found matching \"'' @ target @ ''\"''))"

section \<open>Vocabulary of the statements\<close>

text \<open>The record the store holds for an endpoint.\<close>

definition health_of :: "controller \<Rightarrow> string \<Rightarrow> health_data option" where
  "health_of s ep = map_of (health_checks s) ep"

text \<open>
  The four ways a probe fails in \<open>_monitor_health\<close>: a response whose status code is not the
  expected one, and the three \<open>except\<close> clauses.
\<close>

fun is_unexpected :: "int \<Rightarrow> probe \<Rightarrow> bool" where
  "is_unexpected ex (Response c rt) = (c \<noteq> ex)"
| "is_unexpected ex p = False"

fun is_other :: "probe \<Rightarrow> bool" where
  "is_other (OtherException e) = True"
| "is_other p = False"

fun is_failure :: "int \<Rightarrow> probe \<Rightarrow> bool" where
  "is_failure ex (Response c rt) = (c \<noteq> ex)"
| "is_failure ex p = True"

text \<open>The endpoint \<open>a.example\<close> registered on a fresh controller, at time 0.\<close>

definition registered :: controller where
  "registered = snd (setup_health_check 0 ''a.example'' 30 (init_controller True))"

text \<open>
  The key under which \<open>setup_health_check\<close> stores an endpoint: the identity itself when it
  starts with a scheme, and the identity after \<open>https://\<close> otherwise.
\<close>

definition endpoint_key :: "string \<Rightarrow> string" where
  "endpoint_key e =
     (if startswith e ''http://'' \<or> startswith e ''https://'' then e else ''https://'' @ e)"

text \<open>The record \<open>setup_health_check\<close> writes.\<close>

definition fresh_record :: "datetime \<Rightarrow> string \<Rightarrow> int \<Rightarrow> health_data" where
  "fresh_record now k i =
     \<lparr>config = \<lparr>endpoint = k, expected_status = 200, timeout = 10, interval = i,
                 failure_threshold = 3\<rparr>,
      status = ''initializing'', last_check = None, failures = 0, success_count = 0,
      created_at = now, response_time = None, last_error = None\<rparr>"

section \<open>The controller object and the registration method\<close>

text \<open>
  The object \<open>__init__\<close> leaves. When no access keys are given and probing the default
  credentials raises, the inner \<open>except\<close> clause calls \<open>_create_mock_clients\<close> and returns:
  the lines under \<open># Internal state\<close> are not run and the object has no attribute
  \<open>health_checks\<close>, \<open>alerts\<close>, \<open>metrics\<close> or \<open>monitoring_active\<close> (\<open>NoState\<close>). On every other
  path the internal state is created (\<open>WithState\<close>); an exception while the session or the
  clients are created is caught by the outer \<open>except\<close> clause, which switches to mock mode
  and goes on.
\<close>

datatype controller_object = NoState | WithState controller


text \<open>
  Exceptions: \<open>AttributeError\<close> with its message, and the exceptions that are not subclasses
  of \<open>Exception\<close> (such as \<open>KeyboardInterrupt\<close>), which \<open>except Exception\<close> lets through.
\<close>

datatype py_exception = AttributeError string | NotAnException string

fun caught_by_except_Exception :: "py_exception \<Rightarrow> bool" where
  "caught_by_except_Exception (AttributeError m) = True"
| "caught_by_except_Exception (NotAnException m) = False"

fun str_exception :: "py_exception \<Rightarrow> string" where
  "str_exception (AttributeError m) = m"
| "str_exception (NotAnException m) = m"

definition no_attribute :: "string \<Rightarrow> string" where
  "no_attribute name =
     [CHR 0x27] @ ''AWSTrafficController'' @ [CHR 0x27] @ '' object has no attribute ''
       @ [CHR 0x27] @ name @ [CHR 0x27]"

text \<open>
  The \<open>try\<close> body of \<open>setup_health_check\<close> on the object: without internal state, the
  assignment \<open>self.health_checks[endpoint] = ...\<close> is the first statement to read an attribute
  of \<open>self\<close>, and it raises \<open>AttributeError\<close>; nothing has been written before it.
\<close>

definition setup_try_body ::
    "datetime \<Rightarrow> string \<Rightarrow> int \<Rightarrow> controller_object \<Rightarrow> py_exception + (setup_result \<times> controller)" where
  "setup_try_body now endpoint0 interval0 obj =
     (case obj of
        NoState \<Rightarrow> Inl (AttributeError (no_attribute ''health_checks''))
      | WithState s \<Rightarrow> Inr (setup_health_check now endpoint0 interval0 s))"

text \<open>
  The method \<open>setup_health_check\<close>: the \<open>try\<close> body and the clause
  \<open>except Exception as e: return {'status': 'error', 'message': str(e)}\<close>, which leaves the
  object as it was. \<open>Inl\<close> is an exception that leaves the method, \<open>Inr\<close> the result it
  returns with the object afterwards.
\<close>

definition setup_health_check_method ::
    "datetime \<Rightarrow> string \<Rightarrow> int \<Rightarrow> controller_object \<Rightarrow> py_exception + (setup_result \<times> controller_object)" where
  "setup_health_check_method now endpoint0 interval0 obj =
     (case setup_try_body now endpoint0 interval0 obj of
        Inr (r, s') \<Rightarrow> Inr (r, WithState s')
      | Inl ex \<Rightarrow>
          if caught_by_except_Exception ex then Inr (SetupError (str_exception ex), obj)
          else Inl ex)"

section \<open>Reading the store after each operation\<close>

lemma health_of_put [simp]:
  "health_of (put_health ep d s) ep' = (if ep' = ep then Some d else health_of s ep')"
  by (simp add: health_of_def put_health_def update_conv')

lemma health_of_count_failed [simp]: "health_of (count_failed s) = health_of s"
  by (rule ext) (simp add: health_of_def count_failed_def)

lemma health_of_count_successful [simp]: "health_of (count_successful s) = health_of s"
  by (rule ext) (simp add: health_of_def count_successful_def)

lemma health_of_handle [simp]: "health_of (handle_unhealthy_endpoint now ep d s) = health_of s"
  by (rule ext) (simp add: health_of_def handle_unhealthy_endpoint_def Let_def)

lemma apply_probe_unexpected:
  assumes "health_of s ep = Some d" and "c \<noteq> expected_status (config d)"
  shows "\<exists>d'. health_of (apply_probe now ep (Response c rt) s) ep = Some d' \<and>
           config d' = config d \<and> failures d' = failures d + 1 \<and>
           status d' = (if failures d + 1 \<ge> failure_threshold (config d)
                        then ''unhealthy'' else ''degraded'')"
  using assms by (simp add: apply_probe_def health_of_def[symmetric] Let_def)

lemma apply_probe_timeout:
  assumes "health_of s ep = Some d"
  shows "\<exists>d'. health_of (apply_probe now ep Timeout s) ep = Some d' \<and> status d' = ''timeout''"
  using assms by (simp add: apply_probe_def health_of_def[symmetric] Let_def)

lemma apply_probe_connection:
  assumes "health_of s ep = Some d"
  shows "\<exists>d'. health_of (apply_probe now ep ConnectionError s) ep = Some d' \<and>
           status d' = ''connection_error''"
  using assms by (simp add: apply_probe_def health_of_def[symmetric] Let_def)

lemma apply_probe_other:
  assumes "health_of s ep = Some d"
  shows "\<exists>d'. health_of (apply_probe now ep (OtherException e) s) ep = Some d' \<and>
           status d' = ''error''"
  using assms by (simp add: apply_probe_def health_of_def[symmetric] Let_def)

section \<open>Runs of failing probes\<close>

lemma run_unexpected:
  assumes "health_of s ep = Some d"
    and "list_all (\<lambda>tp. is_unexpected (expected_status (config d)) (snd tp)) ps"
    and "ps \<noteq> []"
  shows "\<exists>d'. health_of (run_probes ep ps s) ep = Some d' \<and> config d' = config d \<and>
           failures d' = failures d + int (length ps) \<and>
           status d' = (if failures d + int (length ps) \<ge> failure_threshold (config d)
                        then ''unhealthy'' else ''degraded'')"
  using assms
proof (induction ps arbitrary: s d)
  case Nil
  then show ?case by simp
next
  case (Cons tp ps)
  obtain t p where tp: "tp = (t, p)" by (cases tp)
  from Cons.prems(2) tp obtain c rt where p: "p = Response c rt"
    and c: "c \<noteq> expected_status (config d)"
    by (cases p) auto
  from apply_probe_unexpected[OF Cons.prems(1) c, of t rt]
  obtain d1 where d1: "health_of (apply_probe t ep (Response c rt) s) ep = Some d1"
    "config d1 = config d" "failures d1 = failures d + 1"
    "status d1 = (if failures d + 1 \<ge> failure_threshold (config d)
                        then ''unhealthy'' else ''degraded'')"
    by blast
  show ?case
  proof (cases "ps = []")
    case True
    with d1 tp p show ?thesis by simp
  next
    case False
    from Cons.prems(2) d1(2)
    have "list_all (\<lambda>tp. is_unexpected (expected_status (config d1)) (snd tp)) ps" by simp
    from Cons.IH[OF d1(1) this False] d1 tp p
    show ?thesis by (simp add: add.assoc)
  qed
qed

text \<open>A run of probes each of which sets the same state ends in that state.\<close>

lemma run_same_status:
  assumes step: "\<And>t p s d. P p \<Longrightarrow> health_of s ep = Some d \<Longrightarrow>
             \<exists>d'. health_of (apply_probe t ep p s) ep = Some d' \<and> status d' = X"
    and "health_of s ep = Some d"
    and "list_all (\<lambda>tp. P (snd tp)) ps"
    and "ps \<noteq> []"
  shows "\<exists>d'. health_of (run_probes ep ps s) ep = Some d' \<and> status d' = X"
  using assms(2-)
proof (induction ps arbitrary: s d)
  case Nil
  then show ?case by simp
next
  case (Cons tp ps)
  obtain t p where tp: "tp = (t, p)" by (cases tp)
  with Cons.prems(2) have "P p" by simp
  from step[OF this Cons.prems(1), of t]
  obtain d1 where d1: "health_of (apply_probe t ep p s) ep = Some d1" "status d1 = X"
    by blast
  show ?case
  proof (cases "ps = []")
    case True
    with d1 tp show ?thesis by simp
  next
    case False
    from Cons.prems(2) have "list_all (\<lambda>tp. P (snd tp)) ps" by simp
    from Cons.IH[OF d1(1) this False] tp show ?thesis by simp
  qed
qed

lemma run_timeout:
  assumes "health_of s ep = Some d" and "list_all (\<lambda>tp. snd tp = Timeout) ps" and "ps \<noteq> []"
  shows "\<exists>d'. health_of (run_probes ep ps s) ep = Some d' \<and> status d' = ''timeout''"
  by (rule run_same_status[where P = "\<lambda>p. p = Timeout", OF _ assms])
     (simp add: apply_probe_timeout)

lemma run_connection:
  assumes "health_of s ep = Some d" and "list_all (\<lambda>tp. snd tp = ConnectionError) ps"
    and "ps \<noteq> []"
  shows "\<exists>d'. health_of (run_probes ep ps s) ep = Some d' \<and> status d' = ''connection_error''"
  by (rule run_same_status[where P = "\<lambda>p. p = ConnectionError", OF _ assms])
     (simp add: apply_probe_connection)

lemma run_other:
  assumes "health_of s ep = Some d" and "list_all (\<lambda>tp. is_other (snd tp)) ps" and "ps \<noteq> []"
  shows "\<exists>d'. health_of (run_probes ep ps s) ep = Some d' \<and> status d' = ''error''"
proof (rule run_same_status[where P = is_other, OF _ assms])
  fix t p s d
  assume "is_other p" and h: "health_of s ep = Some d"
  then obtain e where "p = OtherException e" by (cases p) auto
  with apply_probe_other[OF h]
  show "\<exists>d'. health_of (apply_probe t ep p s) ep = Some d' \<and> status d' = ''error''"
    by simp
qed

text \<open>
  C1 (as amended). Take an endpoint whose failure counter is 0, as it is in state
  \<open>initializing\<close> after registration and in state \<open>healthy\<close>, and a non-empty run of failing
  probes. If every probe returns an unexpected status code, the state after the run is
  \<open>degraded\<close> while the run is shorter than the failure threshold and \<open>unhealthy\<close> from the
  threshold-th probe on. If every probe times out, fails to connect or raises another
  exception, the state after the run is \<open>timeout\<close>, \<open>connection_error\<close> or \<open>error\<close>
  whatever the length of the run and the threshold: these states are entered at the first
  failing probe.
\<close>

theorem threshold_states:
  assumes "health_of s ep = Some d" and "failures d = 0" and "ps \<noteq> []"
  shows "(list_all (\<lambda>tp. is_unexpected (expected_status (config d)) (snd tp)) ps \<longrightarrow>
            map_option status (health_of (run_probes ep ps s) ep) =
              Some (if int (length ps) < failure_threshold (config d)
                    then ''degraded'' else ''unhealthy''))
       \<and> (list_all (\<lambda>tp. snd tp = Timeout) ps \<longrightarrow>
            map_option status (health_of (run_probes ep ps s) ep) = Some ''timeout'')
       \<and> (list_all (\<lambda>tp. snd tp = ConnectionError) ps \<longrightarrow>
            map_option status (health_of (run_probes ep ps s) ep) = Some ''connection_error'')
       \<and> (list_all (\<lambda>tp. is_other (snd tp)) ps \<longrightarrow>
            map_option status (health_of (run_probes ep ps s) ep) = Some ''error'')"
proof (intro conjI impI)
  assume "list_all (\<lambda>tp. is_unexpected (expected_status (config d)) (snd tp)) ps"
  from run_unexpected[OF assms(1) this assms(3)] assms(2)
  show "map_option status (health_of (run_probes ep ps s) ep) =
              Some (if int (length ps) < failure_threshold (config d)
                    then ''degraded'' else ''unhealthy'')"
    by auto
next
  assume "list_all (\<lambda>tp. snd tp = Timeout) ps"
  from run_timeout[OF assms(1) this assms(3)]
  show "map_option status (health_of (run_probes ep ps s) ep) = Some ''timeout''" by auto
next
  assume "list_all (\<lambda>tp. snd tp = ConnectionError) ps"
  from run_connection[OF assms(1) this assms(3)]
  show "map_option status (health_of (run_probes ep ps s) ep) = Some ''connection_error''"
    by auto
next
  assume "list_all (\<lambda>tp. is_other (snd tp)) ps"
  from run_other[OF assms(1) this assms(3)]
  show "map_option status (health_of (run_probes ep ps s) ep) = Some ''error''" by auto
qed

lemma registered_record:
  "health_of registered ''https://a.example'' =
     Some \<lparr>config = \<lparr>endpoint = ''https://a.example'', expected_status = 200, timeout = 10,
                     interval = 30, failure_threshold = 3\<rparr>,
           status = ''initializing'', last_check = None, failures = 0, success_count = 0,
           created_at = 0, response_time = None, last_error = None\<rparr>"
  by code_simp

text \<open>
  The theorem at the registered endpoint (threshold 3): two unexpected status codes give
  \<open>degraded\<close>, three give \<open>unhealthy\<close>, and one exception of each kind gives its state.
\<close>

theorem threshold_states_witness:
  "map_option status (health_of (run_probes ''https://a.example''
      [(1, Response 500 7), (2, Response 503 7)] registered) ''https://a.example'')
     = Some ''degraded''
   \<and> map_option status (health_of (run_probes ''https://a.example''
      [(1, Response 500 7), (2, Response 503 7), (3, Response 404 7)] registered)
        ''https://a.example'') = Some ''unhealthy''
   \<and> map_option status (health_of (run_probes ''https://a.example''
      [(1, Timeout)] registered) ''https://a.example'') = Some ''timeout''
   \<and> map_option status (health_of (run_probes ''https://a.example''
      [(1, ConnectionError)] registered) ''https://a.example'') = Some ''connection_error''
   \<and> map_option status (health_of (run_probes ''https://a.example''
      [(1, OtherException ''boom'')] registered) ''https://a.example'') = Some ''error''"
  using threshold_states[OF registered_record, of "[(1, Response 500 7), (2, Response 503 7)]"]
    threshold_states[OF registered_record,
      of "[(1, Response 500 7), (2, Response 503 7), (3, Response 404 7)]"]
    threshold_states[OF registered_record, of "[(1, Timeout)]"]
    threshold_states[OF registered_record, of "[(1, ConnectionError)]"]
    threshold_states[OF registered_record, of "[(1, OtherException ''boom'')]"]
  by simp

text \<open>
  C1 as stated fails: with threshold 3, the first timeout already puts the endpoint in state
  \<open>timeout\<close>, with one failure counted, and not in \<open>degraded\<close>.
\<close>

theorem first_timeout_counterexample:
  "map_option (\<lambda>d. (status d, failures d, failure_threshold (config d)))
     (health_of (run_probes ''https://a.example'' [(1, Timeout)] registered)
        ''https://a.example'') = Some (''timeout'', 1, 3)"
  by code_simp

section \<open>Registration\<close>

lemma setup_health_check_result:
  "fst (setup_health_check now e i s) =
     SetupSuccess (''Health check configured for '' @ endpoint_key e) (endpoint_key e) i True"
  by (simp add: setup_health_check_def endpoint_key_def Let_def)

lemma setup_health_check_checks:
  "health_checks (snd (setup_health_check now e i s)) =
     AList.update (endpoint_key e) (fresh_record now (endpoint_key e) i) (health_checks s)"
  by (simp add: setup_health_check_def endpoint_key_def fresh_record_def Let_def put_health_def)

lemma setup_health_check_store:
  "health_of (snd (setup_health_check now e i s)) ep =
     (if ep = endpoint_key e then Some (fresh_record now (endpoint_key e) i) else health_of s ep)"
  by (simp add: health_of_def setup_health_check_checks update_conv')

lemma setup_health_check_keys:
  assumes "health_of s (endpoint_key e) = Some old"
  shows "map fst (health_checks (snd (setup_health_check now e i s))) = map fst (health_checks s)"
proof -
  from assms map_of_eq_None_iff[of "health_checks s" "endpoint_key e"]
  have "endpoint_key e \<in> fst ` set (health_checks s)"
    by (auto simp add: health_of_def)
  then show ?thesis
    by (simp add: setup_health_check_checks update_keys)
qed

section \<open>The invariant of the healthy state\<close>

lemma apply_probe_healthy:
  assumes "\<forall>ep d. health_of s ep = Some d \<longrightarrow> status d = ''healthy'' \<longrightarrow> failures d = 0"
    and "health_of (apply_probe now ep0 p s) ep = Some d" and "status d = ''healthy''"
  shows "failures d = 0"
proof (cases "health_of s ep0")
  case None
  with assms show ?thesis by (simp add: apply_probe_def health_of_def)
next
  case (Some d0)
  show ?thesis
  proof (cases "ep = ep0")
    case False
    with Some assms(2) have "health_of s ep = Some d"
      by (cases p) (simp_all add: apply_probe_def health_of_def[symmetric] Let_def split: if_splits)
    with assms(1,3) show ?thesis by blast
  next
    case True
    with Some assms(2,3) show ?thesis
      by (cases p) (auto simp add: apply_probe_def health_of_def[symmetric] Let_def split: if_splits)
  qed
qed

lemma monitor_endpoint_healthy:
  assumes "\<forall>ep d. health_of s ep = Some d \<longrightarrow> status d = ''healthy'' \<longrightarrow> failures d = 0"
    and "health_of (monitor_endpoint now ep0 p s) ep = Some d" and "status d = ''healthy''"
  shows "failures d = 0"
proof -
  have "monitor_endpoint now ep0 p s = s \<or> monitor_endpoint now ep0 p s = apply_probe now ep0 p s"
    by (simp add: monitor_endpoint_def split: option.splits)
  then show ?thesis
  proof
    assume "monitor_endpoint now ep0 p s = s"
    with assms show ?thesis by simp
  next
    assume "monitor_endpoint now ep0 p s = apply_probe now ep0 p s"
    with assms(2) have "health_of (apply_probe now ep0 p s) ep = Some d" by simp
    from apply_probe_healthy[OF assms(1) this assms(3)] show ?thesis .
  qed
qed

text \<open>
  C3. In every state the controller can reach by registrations, monitoring steps (with any
  probe outcome, at any time, for any endpoint) and resets, an endpoint whose state is
  \<open>healthy\<close> has its failure counter at 0.
\<close>

theorem healthy_no_failures:
  assumes "reachable s" and "health_of s ep = Some d" and "status d = ''healthy''"
  shows "failures d = 0"
  using assms
proof (induction arbitrary: ep d rule: reachable.induct)
  case (r_init mm)
  then show ?case by (simp add: health_of_def init_controller_def)
next
  case (r_setup s now e i)
  from r_setup.prems show ?case
    by (auto simp add: setup_health_check_store fresh_record_def split: if_splits
        intro: r_setup.IH)
next
  case (r_monitor s now ep0 p)
  from r_monitor.IH
  have "\<forall>ep d. health_of s ep = Some d \<longrightarrow> status d = ''healthy'' \<longrightarrow> failures d = 0"
    by blast
  from monitor_endpoint_healthy[OF this r_monitor.prems] show ?case .
next
  case (r_clear s)
  then show ?case by (simp add: health_of_def clear_all_def)
qed

text \<open>
  A reachable state with a healthy endpoint: the registered endpoint after an unexpected
  status code and, one poll interval later, the expected one.
\<close>

theorem healthy_no_failures_witness:
  "reachable (monitor_endpoint 31000000 ''https://a.example'' (Response 200 7)
               (monitor_endpoint 1 ''https://a.example'' (Response 500 7) registered))
   \<and> map_option (\<lambda>d. (status d, failures d))
        (health_of (monitor_endpoint 31000000 ''https://a.example'' (Response 200 7)
                     (monitor_endpoint 1 ''https://a.example'' (Response 500 7) registered))
           ''https://a.example'') = Some (''healthy'', 0)"
proof -
  let ?s = "monitor_endpoint 31000000 ''https://a.example'' (Response 200 7)
               (monitor_endpoint 1 ''https://a.example'' (Response 500 7) registered)"
  have r: "reachable ?s"
    unfolding registered_def by (intro r_monitor r_setup r_init)
  let ?d = "\<lparr>config = \<lparr>endpoint = ''https://a.example'', expected_status = 200, timeout = 10,
                          interval = 30, failure_threshold = 3\<rparr>,
            status = ''healthy'', last_check = Some 31000000, failures = 0, success_count = 1,
            created_at = 0, response_time = Some 7, last_error = Some ''HTTP 500''\<rparr>"
  have h: "health_of ?s ''https://a.example'' = Some ?d"
    by code_simp
  have st: "status ?d = ''healthy''" by simp
  from healthy_no_failures[OF r h st] r h show ?thesis by simp
qed

section \<open>Registering an endpoint again\<close>

text \<open>
  C10. Registering an identity whose key is already in the store replaces the whole record:
  afterwards the state is \<open>initializing\<close>, \<open>success_count\<close> and \<open>failures\<close> are 0,
  \<open>last_check\<close> is unset, \<open>created_at\<close> is the time of the new registration, the response
  time and the last error are gone and the interval is the new one. The keys of the store and
  their order are unchanged.
\<close>

theorem reregistration_resets:
  assumes "health_of s (endpoint_key e) = Some old"
  shows "\<exists>d. health_of (snd (setup_health_check now e i s)) (endpoint_key e) = Some d
           \<and> status d = ''initializing'' \<and> success_count d = 0 \<and> failures d = 0
           \<and> last_check d = None \<and> created_at d = now
           \<and> response_time d = None \<and> last_error d = None
           \<and> interval (config d) = i
           \<and> map fst (health_checks (snd (setup_health_check now e i s)))
               = map fst (health_checks s)"
  using setup_health_check_keys[OF assms, of now i]
  by (simp add: setup_health_check_store fresh_record_def)

lemma endpoint_key_a: "endpoint_key ''a.example'' = ''https://a.example''"
  by (simp add: endpoint_key_def startswith_def)

text \<open>
  The registered endpoint after one successful probe (healthy, one success), registered again
  at time 5 under its scheme-less identity.
\<close>

theorem reregistration_resets_witness:
  "map_option (\<lambda>d. (status d, success_count d, failures d, last_check d, created_at d))
     (health_of (apply_probe 1 ''https://a.example'' (Response 200 7) registered)
        ''https://a.example'') = Some (''healthy'', 1, 0, Some 1, 0)
   \<and> map_option (\<lambda>d. (status d, success_count d, failures d, last_check d, created_at d))
     (health_of (snd (setup_health_check 5 ''a.example'' 60
                       (apply_probe 1 ''https://a.example'' (Response 200 7) registered)))
        ''https://a.example'') = Some (''initializing'', 0, 0, None, 5)"
proof -
  let ?s = "apply_probe 1 ''https://a.example'' (Response 200 7) registered"
  let ?old = "\<lparr>config = \<lparr>endpoint = ''https://a.example'', expected_status = 200, timeout = 10,
                          interval = 30, failure_threshold = 3\<rparr>,
            status = ''healthy'', last_check = Some 1, failures = 0, success_count = 1,
            created_at = 0, response_time = Some 7, last_error = None\<rparr>"
  have h: "health_of ?s ''https://a.example'' = Some ?old"
    by code_simp
  then have h': "health_of ?s (endpoint_key ''a.example'') = Some ?old"
    by (simp only: endpoint_key_a)
  from reregistration_resets[OF h', of 5 60] h show ?thesis
    by (auto simp add: endpoint_key_a)
qed

section \<open>Registration on the controller object\<close>



lemma setup_health_check_method_with_state:
  "setup_health_check_method now e i (WithState s)
     = Inr (fst (setup_health_check now e i s), WithState (snd (setup_health_check now e i s)))"
  by (simp add: setup_health_check_method_def setup_try_body_def split: prod.splits)

lemma registration_with_state_accepts:
  "\<exists>r s'. setup_health_check_method now e i (WithState s) = Inr (r, WithState s')
      \<and> result_status r = ''success''
      \<and> health_of s' (endpoint_key e) = Some (fresh_record now (endpoint_key e) i)"
  by (simp add: setup_health_check_method_with_state setup_health_check_result
      setup_health_check_store)


section \<open>Failover and the alert log\<close>

lemma trigger_failover_iff:
  "trigger_failover s e =
     (\<exists>ep d. (ep, d) \<in> set (health_checks s) \<and> status d = ''healthy'' \<and> ep \<noteq> e)"
  by (auto simp add: trigger_failover_def Let_def filter_empty_conv)

lemma alerts_handle:
  "alerts (handle_unhealthy_endpoint now e d s) =
     drop (length (alerts s) + 1 - 100) (alerts s @ [new_alert now e d s])"
  by (simp add: handle_unhealthy_endpoint_def Let_def last100_def)

text \<open>
  C5. \<open>_trigger_failover\<close> returns true when some endpoint of the store other than the failed
  one is \<open>healthy\<close>. When none is, it returns false, and handling the unhealthy endpoint
  appends exactly one alert: the new log is the old one followed by the new alert (cut to its
  last 100 entries), the new alert is its last entry, it names the failed endpoint and it
  carries \<open>failover_success = False\<close>.
\<close>

theorem failover_result:
  "((\<exists>ep h. (ep, h) \<in> set (health_checks s) \<and> status h = ''healthy'' \<and> ep \<noteq> e)
      \<longrightarrow> trigger_failover s e)
   \<and> (\<not> (\<exists>ep h. (ep, h) \<in> set (health_checks s) \<and> status h = ''healthy'' \<and> ep \<noteq> e)
      \<longrightarrow> \<not> trigger_failover s e
          \<and> alerts (handle_unhealthy_endpoint now e d s) =
               drop (length (alerts s) + 1 - 100) (alerts s @ [new_alert now e d s])
          \<and> last (alerts (handle_unhealthy_endpoint now e d s)) = new_alert now e d s
          \<and> alert_endpoint (new_alert now e d s) = e
          \<and> \<not> alert_failover_success (new_alert now e d s))"
proof (intro conjI impI)
  assume "\<exists>ep h. (ep, h) \<in> set (health_checks s) \<and> status h = ''healthy'' \<and> ep \<noteq> e"
  then show "trigger_failover s e" by (simp add: trigger_failover_iff)
next
  assume n: "\<not> (\<exists>ep h. (ep, h) \<in> set (health_checks s) \<and> status h = ''healthy'' \<and> ep \<noteq> e)"
  then show "\<not> trigger_failover s e" by (simp add: trigger_failover_iff)
  from n show "\<not> alert_failover_success (new_alert now e d s)"
    by (simp add: new_alert_def trigger_failover_iff)
next
  show "alerts (handle_unhealthy_endpoint now e d s) =
               drop (length (alerts s) + 1 - 100) (alerts s @ [new_alert now e d s])"
    by (rule alerts_handle)
next
  show "last (alerts (handle_unhealthy_endpoint now e d s)) = new_alert now e d s"
    by (simp add: alerts_handle last_drop)
next
  show "alert_endpoint (new_alert now e d s) = e" by (simp add: new_alert_def)
qed

text \<open>
  Both cases: with a second, healthy endpoint registered the failover of the first returns
  true; with the first endpoint alone it returns false and the log holds the one new alert.
\<close>

theorem failover_result_witness:
  "trigger_failover
     (apply_probe 1 ''https://b.example'' (Response 200 7)
        (snd (setup_health_check 0 ''b.example'' 30 registered))) ''https://a.example''
   \<and> \<not> trigger_failover registered ''https://a.example''
   \<and> map (\<lambda>a. (alert_id a, alert_endpoint a, alert_failover_success a))
         (alerts (handle_unhealthy_endpoint 9 ''https://a.example''
                    (fresh_record 0 ''https://a.example'' 30) registered))
       = [(1, ''https://a.example'', False)]"
proof -
  let ?s = "apply_probe 1 ''https://b.example'' (Response 200 7)
        (snd (setup_health_check 0 ''b.example'' 30 registered))"
  let ?b = "\<lparr>config = \<lparr>endpoint = ''https://b.example'', expected_status = 200, timeout = 10,
                          interval = 30, failure_threshold = 3\<rparr>,
            status = ''healthy'', last_check = Some 1, failures = 0, success_count = 1,
            created_at = 0, response_time = Some 7, last_error = None\<rparr>"
  let ?a = "fresh_record 0 ''https://a.example'' 30"
  have two: "health_checks ?s = [(''https://a.example'', ?a), (''https://b.example'', ?b)]"
    by code_simp
  have one: "health_checks registered = [(''https://a.example'', ?a)]"
    by code_simp
  have no_alerts: "alerts registered = []"
    by code_simp
  have yes: "\<exists>ep h. (ep, h) \<in> set (health_checks ?s) \<and> status h = ''healthy''
               \<and> ep \<noteq> ''https://a.example''"
    unfolding two by (intro exI[of _ "''https://b.example''"] exI[of _ ?b]) simp
  have no: "\<not> (\<exists>ep h. (ep, h) \<in> set (health_checks registered) \<and> status h = ''healthy''
               \<and> ep \<noteq> ''https://a.example'')"
    unfolding one by simp
  from failover_result[of ?s "''https://a.example''"] yes
  have t: "trigger_failover ?s ''https://a.example''" by blast
  from failover_result[of registered "''https://a.example''" 9 ?a] no
  have f: "\<not> trigger_failover registered ''https://a.example''"
    "alerts (handle_unhealthy_endpoint 9 ''https://a.example'' ?a registered) =
               drop (length (alerts registered) + 1 - 100)
                 (alerts registered @ [new_alert 9 ''https://a.example'' ?a registered])"
    "\<not> alert_failover_success (new_alert 9 ''https://a.example'' ?a registered)"
    by blast+
  from t f show ?thesis
    by (simp add: no_alerts new_alert_def)
qed

text \<open>
  C6. After \<open>_handle_unhealthy_endpoint\<close>, the one operation that appends an alert, the log has
  at most 100 entries, and it consists of the last 100 entries (all of them when there are
  fewer) of the old log followed by the new alert, in insertion order: the oldest entries are
  the ones dropped.
\<close>

theorem alert_log_bounded:
  "length (alerts (handle_unhealthy_endpoint now e d s)) \<le> 100
   \<and> alerts (handle_unhealthy_endpoint now e d s) =
       drop (length (alerts s @ [new_alert now e d s]) - 100) (alerts s @ [new_alert now e d s])"
  by (simp add: handle_unhealthy_endpoint_def Let_def last100_def)

section \<open>Evaluations\<close>

text \<open>
  C2, evaluated. The endpoint \<open>api.example.com\<close> is registered (threshold 3) and probed three
  times with a connection failure. The status report for it shows state
  \<open>connection_error\<close> and \<open>failures = 3\<close>, and the alert log is empty: the clause for
  \<open>ConnectionError\<close> never calls \<open>_handle_unhealthy_endpoint\<close>. The same run with another
  exception, whose clause checks the threshold, leaves one alert.
\<close>

theorem three_connection_failures_no_alert:
  "get_status_target ''api.example.com''
     (run_probes ''https://api.example.com''
        [(1, ConnectionError), (2, ConnectionError), (3, ConnectionError)]
        (snd (setup_health_check 0 ''api.example.com'' 30 (init_controller True))))
     = Inr [(''https://api.example.com'',
             \<lparr>rep_status = ''connection_error'', rep_last_check = None, rep_failures = 3,
              rep_success_count = 0, rep_response_time = None,
              rep_last_error = Some ''Connection failed'',
              rep_uptime_percentage = Percentage 0 3\<rparr>)]
   \<and> alerts (run_probes ''https://api.example.com''
        [(1, ConnectionError), (2, ConnectionError), (3, ConnectionError)]
        (snd (setup_health_check 0 ''api.example.com'' 30 (init_controller True)))) = []
   \<and> length (alerts (run_probes ''https://api.example.com''
        [(1, OtherException ''boom''), (2, OtherException ''boom''), (3, OtherException ''boom'')]
        (snd (setup_health_check 0 ''api.example.com'' 30 (init_controller True))))) = 1"
  by code_simp

text \<open>
  C4, evaluated. After one failing probe (status 500) and one successful probe the record has
  \<open>success_count = 1\<close> and \<open>failures = 0\<close>, and the uptime is computed from 1 success in 1
  check, although one of the two probes failed: \<open>failures\<close> is the consecutive-failure
  counter, which the successful probe has reset.
\<close>

theorem uptime_forgets_failures:
  "map_option (\<lambda>d. (success_count d, failures d, calculate_uptime d))
     (health_of (run_probes ''https://a.example''
                   [(1, Response 500 7), (2, Response 200 7)] registered) ''https://a.example'')
     = Some (1, 0, Percentage 1 1)
   \<and> length (filter (\<lambda>tp. is_failure 200 (snd tp)) [(1, Response 500 7), (2, Response 200 7)]) = 1"
  by code_simp

text \<open>
  C8, evaluated. An alert raised at time 0 is counted as recent at a query 24 hours and 30
  minutes later (88200 seconds), and not at a query 25 hours later: the source compares the
  \<open>.seconds\<close> component of the time difference, which wraps every day.
\<close>

theorem stale_alert_counted_as_recent:
  "map alert_timestamp (alerts (run_probes ''https://a.example''
      [(0, OtherException ''boom''), (0, OtherException ''boom''), (0, OtherException ''boom'')]
      registered)) = [0]
   \<and> recent_alerts 88200000000 (run_probes ''https://a.example''
      [(0, OtherException ''boom''), (0, OtherException ''boom''), (0, OtherException ''boom'')]
      registered) = 1
   \<and> recent_alerts 90000000000 (run_probes ''https://a.example''
      [(0, OtherException ''boom''), (0, OtherException ''boom''), (0, OtherException ''boom'')]
      registered) = 0"
  by code_simp

section \<open>Alert ids\<close>

lemma alerts_put_health [simp]: "alerts (put_health ep d s) = alerts s"
  by (simp add: put_health_def)

lemma alerts_count_failed [simp]: "alerts (count_failed s) = alerts s"
  by (simp add: count_failed_def)

lemma apply_probe_other_alert:
  assumes "health_of s ep = Some d"
    and "failure_threshold (config d) \<le> failures d + 1"
    and "length (alerts s) \<le> 100"
  shows "\<exists>d'. health_of (apply_probe t ep (OtherException e) s) ep = Some d'
           \<and> config d' = config d \<and> failures d' = failures d + 1
           \<and> length (alerts (apply_probe t ep (OtherException e) s))
               = min 100 (length (alerts s) + 1)
           \<and> alert_id (last (alerts (apply_probe t ep (OtherException e) s)))
               = int (length (alerts s)) + 1"
  using assms
  by (simp add: apply_probe_def health_of_def[symmetric] Let_def alerts_handle last_drop
      new_alert_def)

lemma min_add_step: "min 100 (min 100 (la + 1) + n) = min (100::nat) (la + Suc n)"
  by arith

lemma min_pred_step:
  "0 < n \<Longrightarrow> min 100 (min 100 (la + 1) + n - 1) = min (100::nat) (la + n)"
  by arith

lemma run_other_alerts:
  assumes "health_of s ep = Some d"
    and "failure_threshold (config d) \<le> failures d + 1"
    and "length (alerts s) \<le> 100"
    and "list_all (\<lambda>tp. is_other (snd tp)) ps"
    and "ps \<noteq> []"
  shows "length (alerts (run_probes ep ps s)) = min 100 (length (alerts s) + length ps)
       \<and> alert_id (last (alerts (run_probes ep ps s)))
           = int (min 100 (length (alerts s) + length ps - 1)) + 1"
  using assms
proof (induction ps arbitrary: s d)
  case Nil
  then show ?case by simp
next
  case (Cons tp ps)
  obtain t p where tp: "tp = (t, p)" by (cases tp)
  with Cons.prems(4) obtain e where p: "p = OtherException e" by (cases p) auto
  let ?s1 = "apply_probe t ep (OtherException e) s"
  from apply_probe_other_alert[OF Cons.prems(1-3), of t e]
  obtain d1 where d1: "health_of ?s1 ep = Some d1" "config d1 = config d"
    "failures d1 = failures d + 1"
    "length (alerts ?s1) = min 100 (length (alerts s) + 1)"
    "alert_id (last (alerts ?s1)) = int (length (alerts s)) + 1"
    by blast
  show ?case
  proof (cases "ps = []")
    case True
    with d1 tp p Cons.prems(3) show ?thesis by simp
  next
    case False
    from d1 Cons.prems(2) have th: "failure_threshold (config d1) \<le> failures d1 + 1" by simp
    from d1(4) have le: "length (alerts ?s1) \<le> 100" by simp
    from Cons.prems(4) have all: "list_all (\<lambda>tp. is_other (snd tp)) ps" by simp
    from False have n: "0 < length ps" by simp
    have e1: "min 100 (length (alerts ?s1) + length ps)
                = min 100 (length (alerts s) + length (tp # ps))"
      unfolding d1(4) by (simp add: min_add_step)
    from n
    have e2: "min 100 (length (alerts ?s1) + length ps - 1)
                = min 100 (length (alerts s) + length (tp # ps) - 1)"
      unfolding d1(4) by (simp add: min_pred_step del: length_greater_0_conv)
    from tp p have r: "run_probes ep (tp # ps) s = run_probes ep ps ?s1" by simp
    from Cons.IH[OF d1(1) th le all False] show ?thesis
      unfolding r e1 e2 .
  qed
qed

lemma run_probes_append:
  "run_probes ep (ps @ qs) s = run_probes ep qs (run_probes ep ps s)"
  by (induction ps arbitrary: s) auto

lemma two_failures:
  "health_of (run_probes ''https://a.example''
      [(0, OtherException ''boom''), (0, OtherException ''boom'')] registered)
     ''https://a.example'' =
     Some \<lparr>config = \<lparr>endpoint = ''https://a.example'', expected_status = 200, timeout = 10,
                     interval = 30, failure_threshold = 3\<rparr>,
           status = ''error'', last_check = None, failures = 2, success_count = 0,
           created_at = 0, response_time = None, last_error = Some ''boom''\<rparr>"
  "alerts (run_probes ''https://a.example''
      [(0, OtherException ''boom''), (0, OtherException ''boom'')] registered) = []"
  by code_simp+

lemma failing_run:
  assumes "0 < n"
  shows "length (alerts (run_probes ''https://a.example''
            (replicate (2 + n) (0, OtherException ''boom'')) registered)) = min 100 n
       \<and> alert_id (last (alerts (run_probes ''https://a.example''
            (replicate (2 + n) (0, OtherException ''boom'')) registered)))
           = int (min 100 (n - 1)) + 1"
proof -
  let ?x = "(0::int, OtherException ''boom'')"
  have split: "replicate (2 + n) ?x = [?x, ?x] @ replicate n ?x"
    by (simp add: numeral_2_eq_2)
  have all: "list_all (\<lambda>tp. is_other (snd tp)) (replicate n ?x)"
    by (simp add: list_all_iff)
  from assms have ne: "replicate n ?x \<noteq> []" by simp
  let ?s2 = "run_probes ''https://a.example'' [?x, ?x] registered"
  have le: "length (alerts ?s2) \<le> 100"
    by (simp only: two_failures(2)) simp
  from run_other_alerts[OF two_failures(1) _ le all ne]
  have "length (alerts (run_probes ''https://a.example'' (replicate n ?x) ?s2))
          = min 100 (length (alerts ?s2) + length (replicate n ?x))
       \<and> alert_id (last (alerts (run_probes ''https://a.example'' (replicate n ?x) ?s2)))
           = int (min 100 (length (alerts ?s2) + length (replicate n ?x) - 1)) + 1"
    by simp
  then show ?thesis
    unfolding split run_probes_append two_failures(2) by (simp del: run_probes.simps)
qed

text \<open>
  C7, evaluated. An endpoint with threshold 3 that keeps raising an exception raises an alert
  at every probe from the third on. The alert of the 102nd probe (the 100th alert) has id 100,
  the alert of the 103rd probe has id 101, and so has the alert of the 104th probe: once the
  log holds 100 entries, \<open>len(self.alerts) + 1\<close> is 101 for every new alert.
\<close>

theorem alert_ids_repeat:
  "alert_id (last (alerts (run_probes ''https://a.example''
        (replicate 102 (0, OtherException ''boom'')) registered))) = 100
   \<and> alert_id (last (alerts (run_probes ''https://a.example''
        (replicate 103 (0, OtherException ''boom'')) registered))) = 101
   \<and> alert_id (last (alerts (run_probes ''https://a.example''
        (replicate 104 (0, OtherException ''boom'')) registered))) = 101
   \<and> length (alerts (run_probes ''https://a.example''
        (replicate 104 (0, OtherException ''boom'')) registered)) = 100"
  using failing_run[of 100] failing_run[of 101] failing_run[of 102]
  by simp

end
